theory Spec2Isabelle
  imports Complex_Main
begin

section \<open>JavaScript values used by the application\<close>

text \<open>
  A JavaScript string is modelled as a HOL \<open>string\<close>, one \<open>char\<close> per code unit; the
  model covers the code units below 256. Literals of the source that lie outside this range
  (the bullet of the prompts, the emoji of the category table) are constants given by their
  UTF-8 bytes; no claim depends on their length.
\<close>

datatype js_error = Error string | TypeError string

text \<open>Truthiness of an optional string: \<open>undefined\<close> and the empty string are falsy.\<close>

definition truthy :: "string option \<Rightarrow> bool" where
  "truthy v = (case v of None \<Rightarrow> False | Some s \<Rightarrow> s \<noteq> [])"

text \<open>The white space that \<open>String.prototype.trim\<close> removes, among the code units below 256.\<close>

definition isWhiteSpace :: "char \<Rightarrow> bool" where
  "isWhiteSpace c = (c \<in> set [CHR 0x09, CHR 0x0A, CHR 0x0B, CHR 0x0C, CHR 0x0D, CHR 0x20, CHR 0xA0])"

definition trim :: "string \<Rightarrow> string" where
  "trim s = rev (dropWhile isWhiteSpace (rev (dropWhile isWhiteSpace s)))"

fun startsWith :: "string \<Rightarrow> string \<Rightarrow> bool" where
  "startsWith s [] = True"
| "startsWith [] (p # ps) = False"
| "startsWith (c # cs) (p # ps) = (c = p \<and> startsWith cs ps)"

fun str_includes :: "string \<Rightarrow> string \<Rightarrow> bool" where
  "str_includes [] sub = (sub = [])"
| "str_includes (c # cs) sub = (startsWith (c # cs) sub \<or> str_includes cs sub)"

text \<open>\<open>s.split(d)\<close> for a one-character separator: never empty, \<open>''''.split(d)\<close> is \<open>['''']\<close>.\<close>

fun split :: "string \<Rightarrow> char \<Rightarrow> string list" where
  "split [] d = [[]]"
| "split (c # cs) d =
     (if c = d then [] # split cs d
      else (case split cs d of [] \<Rightarrow> [[c]] | l # ls \<Rightarrow> (c # l) # ls))"

text \<open>\<open>xs.join(sep)\<close>.\<close>

fun join :: "string list \<Rightarrow> string \<Rightarrow> string" where
  "join [] sep = []"
| "join [x] sep = x"
| "join (x # y # ys) sep = x @ sep @ join (y # ys) sep"

text \<open>\<open>String.prototype.toLowerCase\<close> on the code units below 256.\<close>

definition lower_char :: "char \<Rightarrow> char" where
  "lower_char c = (let n = (of_char c :: nat) in
     if (65 \<le> n \<and> n \<le> 90) \<or> (192 \<le> n \<and> n \<le> 222 \<and> n \<noteq> 215)
     then char_of (n + 32) else c)"

definition toLowerCase :: "string \<Rightarrow> string" where
  "toLowerCase s = map lower_char s"

section \<open>Search client (app/lib/exa.ts)\<close>

record extra_info =
  title :: "string option"
  author :: "string option"
  publish_date :: "string option"
  image_url :: "string option"

record ExaChunk =
  "text" :: string
  url :: string
  extra_info :: "extra_info option"

record ExaSearchResult =
  chunks :: "ExaChunk list"
  total_chunk_count :: int

record ProfileInfo =
  tweets :: "string list"
  bio :: "string option"
  profileImageUrl :: "string option"
  name :: "string option"

record ExaClient =
  apiKey :: "string option"

record ExaRequest =
  query :: string
  num_results :: nat
  use_autoprompt :: bool
  include_domains :: "string list"
  highlights :: bool
  text_search_strategy :: string

text \<open>The constructor: \<open>this.apiKey = apiKey || process.env.EXA_API_KEY\<close>.\<close>

definition new_ExaClient :: "string option \<Rightarrow> string option \<Rightarrow> ExaClient" where
  "new_ExaClient key env_key = \<lparr>apiKey = (if truthy key then key else env_key)\<rparr>"

definition validateApiKey :: "ExaClient \<Rightarrow> js_error + unit" where
  "validateApiKey this =
     (if \<not> truthy (apiKey this) then Inl (Error ''Exa API key is required'') else Inr ())"

text \<open>\<open>xHandle.replace(/^@/, '')\<close>: one leading \<open>@\<close> is removed.\<close>

definition cleanHandle :: "string \<Rightarrow> string" where
  "cleanHandle xHandle =
     (case xHandle of [] \<Rightarrow> [] | c # rest \<Rightarrow> if c = CHR ''@'' then rest else xHandle)"

text \<open>The body of the request that \<open>searchXProfile\<close> posts for a handle.\<close>

definition searchRequest :: "string \<Rightarrow> ExaRequest" where
  "searchRequest xHandle =
     \<lparr>query = ''site:twitter.com @'' @ cleanHandle xHandle @ '' OR from:'' @ cleanHandle xHandle,
      num_results = 10,
      use_autoprompt = True,
      include_domains = [''twitter.com'', ''x.com''],
      highlights = True,
      text_search_strategy = ''keyword''\<rparr>"

text \<open>
  \<open>searchXProfile\<close>: the HTTP call \<open>axios.post\<close> is a parameter, given the request body and
  the key of the header. Every failure inside the \<open>try\<close> is replaced by one generic error.
\<close>

definition searchXProfile ::
  "(ExaRequest \<Rightarrow> string option \<Rightarrow> js_error + ExaSearchResult) \<Rightarrow> ExaClient \<Rightarrow> string
     \<Rightarrow> js_error + ExaSearchResult" where
  "searchXProfile axios_post this xHandle =
     (case (case validateApiKey this of
              Inl e \<Rightarrow> Inl e
            | Inr u \<Rightarrow> axios_post (searchRequest xHandle) (apiKey this)) of
        Inl e \<Rightarrow> Inl (Error ''Failed to search X profile'')
      | Inr r \<Rightarrow> Inr r)"

text \<open>\<open>chunk.extra_info?.image_url\<close> and \<open>chunk.extra_info?.title\<close>.\<close>

definition chunk_image_url :: "ExaChunk \<Rightarrow> string option" where
  "chunk_image_url chunk = (case extra_info chunk of None \<Rightarrow> None | Some e \<Rightarrow> image_url e)"

definition chunk_title :: "ExaChunk \<Rightarrow> string option" where
  "chunk_title chunk = (case extra_info chunk of None \<Rightarrow> None | Some e \<Rightarrow> title e)"

text \<open>
  \<open>t.match(/^([^(]+)/)\<close>, the first group: the longest prefix free of \<open>(\<close>, which must be
  non-empty for the match to succeed.
\<close>

definition titleMatch :: "string \<Rightarrow> string option" where
  "titleMatch t =
     (let m = takeWhile (\<lambda>c. c \<noteq> CHR ''('') t in if m = [] then None else Some m)"

text \<open>The lines of a chunk's text that may serve as the bio: trimmed first, then filtered.\<close>

definition bioLines :: "string \<Rightarrow> string list" where
  "bioLines t =
     filter (\<lambda>line. length line > 10 \<and>
                    \<not> str_includes line ''Followers'' \<and>
                    \<not> str_includes line ''Following'' \<and>
                    \<not> str_includes line ''Posts'' \<and>
                    \<not> startsWith line ''@'')
            (map trim (split t (CHR 0x0A)))"

text \<open>The four steps of the body of the \<open>forEach\<close>, in the order of the source.\<close>

definition step_tweets :: "ExaChunk \<Rightarrow> ProfileInfo \<Rightarrow> ProfileInfo" where
  "step_tweets chunk p =
     (if text chunk \<noteq> [] \<and> trim (text chunk) \<noteq> []
      then p\<lparr>tweets := tweets p @ [trim (text chunk)]\<rparr> else p)"

definition step_image :: "ExaChunk \<Rightarrow> ProfileInfo \<Rightarrow> ProfileInfo" where
  "step_image chunk p =
     (if \<not> truthy (profileImageUrl p) \<and> truthy (chunk_image_url chunk)
      then p\<lparr>profileImageUrl := chunk_image_url chunk\<rparr> else p)"

definition step_name :: "ExaChunk \<Rightarrow> ProfileInfo \<Rightarrow> ProfileInfo" where
  "step_name chunk p =
     (if \<not> truthy (name p) \<and> truthy (chunk_title chunk)
      then (case chunk_title chunk of
              None \<Rightarrow> p
            | Some t \<Rightarrow> (case titleMatch t of None \<Rightarrow> p | Some m \<Rightarrow> p\<lparr>name := Some (trim m)\<rparr>))
      else p)"

definition step_bio :: "ExaChunk \<Rightarrow> ProfileInfo \<Rightarrow> ProfileInfo" where
  "step_bio chunk p =
     (if \<not> truthy (bio p) \<and> str_includes (url chunk) ''/status/'' = False
      then (case bioLines (text chunk) of [] \<Rightarrow> p | l # ls \<Rightarrow> p\<lparr>bio := Some l\<rparr>)
      else p)"

definition process_chunk :: "ProfileInfo \<Rightarrow> ExaChunk \<Rightarrow> ProfileInfo" where
  "process_chunk p chunk = step_bio chunk (step_name chunk (step_image chunk (step_tweets chunk p)))"

definition extractProfileInfo :: "ExaSearchResult \<Rightarrow> ProfileInfo" where
  "extractProfileInfo searchResult =
     foldl process_chunk \<lparr>tweets = [], bio = None, profileImageUrl = None, name = None\<rparr>
       (chunks searchResult)"


section \<open>Persona generator (app/lib/openai.ts)\<close>

text \<open>
  Running a step after another inside a \<open>try\<close>: the first error ends the block.
\<close>

definition bind :: "js_error + 'a \<Rightarrow> ('a \<Rightarrow> js_error + 'b) \<Rightarrow> js_error + 'b" where
  "bind r f = (case r of Inl e \<Rightarrow> Inl e | Inr v \<Rightarrow> f v)"

text \<open>A value produced by \<open>JSON.parse\<close>.\<close>

datatype json =
  JNull | JBool bool | JNumber real | JString string | JArray "json list"
  | JObject "(string \<times> json) list"

text \<open>Truthiness of \<open>v\<close> in \<open>!v\<close>; an absent property is \<open>undefined\<close>, here \<open>None\<close>.\<close>

fun json_truthy :: "json option \<Rightarrow> bool" where
  "json_truthy None = False"
| "json_truthy (Some JNull) = False"
| "json_truthy (Some (JBool b)) = b"
| "json_truthy (Some (JNumber r)) = (r \<noteq> 0)"
| "json_truthy (Some (JString s)) = (s \<noteq> [])"
| "json_truthy (Some (JArray xs)) = True"
| "json_truthy (Some (JObject fs)) = True"

text \<open>
  \<open>personaData.name\<close>, \<open>personaData.traits\<close> and \<open>personaData.interests\<close>: reading a property
  of \<open>null\<close> throws; an object gives its own property; no prototype of an object, an array or a
  primitive value has a property of one of these three names, so that anything else is
  \<open>undefined\<close>.
\<close>

fun getField :: "json \<Rightarrow> string \<Rightarrow> js_error + json option" where
  "getField JNull k = Inl (TypeError (''Cannot read properties of null (reading '' @ k @ '')''))"
| "getField (JObject fs) k = Inr (map_of fs k)"
| "getField v k = Inr None"

text \<open>
  Modelled from the spec: the declaration of \<open>PersonaGenerationContext\<close> (app/types/persona) is
  missing; its fields are those the two prompt builders read. The field \<open>bio\<close> of the source
  is \<open>contextBio\<close> here, since the fields of Isabelle records share one name space.
\<close>

record PersonaGenerationContext =
  recentTweets :: "string list"
  contextBio :: "string option"
  profileDescription :: "string option"

record OpenAIClient =
  client :: "string option"
  openaiKey :: "string option"

record ChatRequest =
  model :: string
  messages :: "(string \<times> string) list"
  temperature :: real
  response_format :: string

record ChatMessage =
  content :: "string option"

record ChatChoice =
  message :: "ChatMessage option"

record ChatResponse =
  choices :: "ChatChoice list"

definition new_OpenAIClient :: "string option \<Rightarrow> string option \<Rightarrow> OpenAIClient" where
  "new_OpenAIClient key env_key =
     \<lparr>client = None, openaiKey = (if truthy key then key else env_key)\<rparr>"

text \<open>\<open>initializeClient\<close> returns the object with its SDK client, created from the key once.\<close>

definition initializeClient :: "OpenAIClient \<Rightarrow> js_error + OpenAIClient" where
  "initializeClient this =
     (if client this = None
      then (if \<not> truthy (openaiKey this) then Inl (Error ''OpenAI API key is required'')
            else Inr (this\<lparr>client := openaiKey this\<rparr>))
      else Inr this)"

definition newline :: string where
  "newline = [CHR 0x0A]"

definition dq :: string where
  "dq = [CHR 0x22]"

definition sq :: string where
  "sq = [CHR 0x27]"

text \<open>The bullet of the source file, \<open>U+00E2 U+20AC U+00A2\<close>, as UTF-8 bytes.\<close>

definition bullet :: string where
  "bullet = [CHR 0xC3, CHR 0xA2, CHR 0xE2, CHR 0x82, CHR 0xAC, CHR 0xC2, CHR 0xA2]"

definition systemPrompt :: string where
  "systemPrompt = join
     [[],
      ''        You are an expert at understanding people based on their social media presence.'',
      ''        Your task is to create a detailed persona based on someone'' @ sq @ ''s X (formerly Twitter) posts and bio.'',
      ''        Analyze the content, style, interests, and values expressed in their posts to build this persona.'',
      ''        '',
      ''        Return a JSON object with the following structure:'',
      ''        {'',
      ''          '' @ dq @ ''name'' @ dq @ '': '' @ dq @ ''Their name (if available, otherwise '' @ sq @ ''Unknown User'' @ sq @ '')'' @ dq @ '','',
      ''          '' @ dq @ ''handle'' @ dq @ '': '' @ dq @ ''Their X handle (without the @ symbol)'' @ dq @ '','',
      ''          '' @ dq @ ''bio'' @ dq @ '': '' @ dq @ ''A concise 1-2 sentence description of who they are'' @ dq @ '','',
      ''          '' @ dq @ ''traits'' @ dq @ '': ['' @ dq @ ''trait1'' @ dq @ '', '' @ dq @ ''trait2'' @ dq @ '', '' @ dq @ ''trait3'' @ dq @ '', '' @ dq @ ''trait4'' @ dq @ '', '' @ dq @ ''trait5'' @ dq @ ''],'',
      ''          '' @ dq @ ''interests'' @ dq @ '': ['' @ dq @ ''interest1'' @ dq @ '', '' @ dq @ ''interest2'' @ dq @ '', '' @ dq @ ''interest3'' @ dq @ '', '' @ dq @ ''interest4'' @ dq @ '', '' @ dq @ ''interest5'' @ dq @ '']'',
      ''        }'',
      ''        '',
      ''        The traits should represent personality characteristics, communication style, and values.'',
      ''        The interests should be specific topics, activities, or areas they seem interested in.'',
      ''        Be specific and precise in your analysis. Base your assessment purely on the provided data.'',
      ''      '']
     newline"

text \<open>\<open>recentTweets.slice(0, 10).map(tweet => bullet + ' ' + tweet).join('\n')\<close>.\<close>

definition tweetList :: "string list \<Rightarrow> string" where
  "tweetList ts = join (map (\<lambda>tweet. bullet @ '' '' @ tweet) (take 10 ts)) newline"

text \<open>
  The two optional parts of the prompts, the bio and the profile description: each is followed
  by two newlines when it is truthy, and is empty otherwise.
\<close>

definition bioSection :: "string option \<Rightarrow> string" where
  "bioSection b = (if truthy b then (case b of None \<Rightarrow> [] | Some t \<Rightarrow> ''Bio: '' @ t @ newline @ newline) else [])"

definition descriptionSection :: "string option \<Rightarrow> string" where
  "descriptionSection d =
     (if truthy d
      then (case d of None \<Rightarrow> [] | Some t \<Rightarrow> ''Profile description: '' @ t @ newline @ newline)
      else [])"

text \<open>The user message that \<open>generatePersona\<close> builds.\<close>

definition userMessage :: "PersonaGenerationContext \<Rightarrow> string" where
  "userMessage ctx =
     newline @
     ''        Here'' @ sq @ ''s information from an X (Twitter) user'' @ sq @ ''s profile:'' @ newline @
     ''        '' @ newline @
     ''        '' @
     bioSection (contextBio ctx) @ newline @
     ''        '' @ newline @
     ''        Recent posts:'' @ newline @
     ''        '' @ tweetList (recentTweets ctx) @ newline @
     ''        '' @ newline @
     ''        Based on this information, create a persona for this user.'' @ newline @
     ''      ''"

text \<open>\<open>PromptEngineer.createPersonaUserPrompt\<close>.\<close>

definition createPersonaUserPrompt :: "PersonaGenerationContext \<Rightarrow> string" where
  "createPersonaUserPrompt ctx =
     newline @
     ''      Here'' @ sq @ ''s information from an X (Twitter) user'' @ sq @ ''s profile:'' @ newline @
     ''      '' @ newline @
     ''      '' @
     bioSection (contextBio ctx) @ newline @
     ''      '' @
     descriptionSection (profileDescription ctx) @ newline @
     ''      '' @ newline @
     ''      Recent posts:'' @ newline @
     ''      '' @ tweetList (recentTweets ctx) @ newline @
     ''      '' @ newline @
     ''      Based on this information, create a persona for this user following the format in your instructions.'' @ newline @
     ''      Focus especially on traits and interests that might influence what locations they would enjoy visiting.'' @ newline @
     ''    ''"

definition personaChatRequest :: "PersonaGenerationContext \<Rightarrow> ChatRequest" where
  "personaChatRequest ctx =
     \<lparr>model = ''gpt-4'',
      messages = [(''system'', systemPrompt), (''user'', userMessage ctx)],
      temperature = 0.7,
      response_format = ''json_object''\<rparr>"

text \<open>\<open>response.choices[0]?.message?.content\<close>.\<close>

definition firstContent :: "ChatResponse \<Rightarrow> string option" where
  "firstContent response =
     (case choices response of
        [] \<Rightarrow> None
      | c # cs \<Rightarrow> (case message c of None \<Rightarrow> None | Some m \<Rightarrow> content m))"

text \<open>The validation of the parsed reply.\<close>

definition validatePersona :: "json \<Rightarrow> js_error + json" where
  "validatePersona personaData =
     bind (getField personaData ''name'') (\<lambda>n.
       if \<not> json_truthy n
       then Inl (Error ''Failed to generate persona: Invalid response format'')
       else bind (getField personaData ''traits'') (\<lambda>t.
         if \<not> json_truthy t
         then Inl (Error ''Failed to generate persona: Invalid response format'')
         else bind (getField personaData ''interests'') (\<lambda>i.
           if \<not> json_truthy i
           then Inl (Error ''Failed to generate persona: Invalid response format'')
           else Inr personaData)))"

text \<open>
  \<open>generatePersona\<close>: the call of the chat-completion API and \<open>JSON.parse\<close> are parameters.
  The \<open>catch\<close> replaces every error of the body by one generic error.
\<close>

definition generatePersona ::
  "(ChatRequest \<Rightarrow> js_error + ChatResponse) \<Rightarrow> (string \<Rightarrow> js_error + json) \<Rightarrow> OpenAIClient
     \<Rightarrow> PersonaGenerationContext \<Rightarrow> js_error + json" where
  "generatePersona create JSON_parse this ctx =
     (case bind (initializeClient this) (\<lambda>this'.
             bind (create (personaChatRequest ctx)) (\<lambda>response.
               case firstContent response of
                 None \<Rightarrow> Inl (Error ''Failed to generate persona: Empty response from OpenAI'')
               | Some c \<Rightarrow>
                   if c = []
                   then Inl (Error ''Failed to generate persona: Empty response from OpenAI'')
                   else bind (JSON_parse c) validatePersona)) of
        Inl e \<Rightarrow> Inl (Error ''Failed to generate persona'')
      | Inr personaData \<Rightarrow> Inr personaData)"


section \<open>Route handlers (app/api/persona/route.ts, app/api/locations/route.ts)\<close>

text \<open>
  A module binding that a handler imports: an object, or a function of no argument that
  returns one (the lazily created single instance of a client).
\<close>

datatype 'c js_binding = Object 'c | Function 'c

text \<open>
  \<open>b.m(...)\<close>: a function has no property of the name of a client method, so that calling it
  there throws a \<open>TypeError\<close>.
\<close>

definition callMethod :: "'c js_binding \<Rightarrow> string \<Rightarrow> ('c \<Rightarrow> js_error + 'r) \<Rightarrow> js_error + 'r" where
  "callMethod b method_name m =
     (case b of
        Object obj \<Rightarrow> m obj
      | Function obj \<Rightarrow> Inl (TypeError (method_name @ '' is not a function'')))"

text \<open>The exports \<open>exaClient\<close> of app/lib/exa.ts and \<open>openaiClient\<close> of app/lib/openai.ts.\<close>

definition exaClient :: "string option \<Rightarrow> ExaClient js_binding" where
  "exaClient env_key = Function (new_ExaClient None env_key)"

definition openaiClient :: "string option \<Rightarrow> OpenAIClient js_binding" where
  "openaiClient env_key = Function (new_OpenAIClient None env_key)"

text \<open>What lies outside the repository: the environment, the two HTTP APIs, \<open>JSON.parse\<close>.\<close>

record Services =
  EXA_API_KEY :: "string option"
  OPENAI_API_KEY :: "string option"
  axios_post :: "ExaRequest \<Rightarrow> string option \<Rightarrow> js_error + ExaSearchResult"
  chat_create :: "ChatRequest \<Rightarrow> js_error + ChatResponse"
  JSON_parse :: "string \<Rightarrow> js_error + json"

record 'a ApiResponse =
  success :: bool
  payload :: "'a option"
  error :: "string option"

record 'a NextResponse =
  status :: nat
  body :: "'a ApiResponse"

record GeneratePersonaRequest =
  xHandle :: "string option"

text \<open>
  The persona of a successful response: the parsed reply of the model, with the profile image
  of the search added.
\<close>

type_synonym PersonaPayload = "json \<times> string option"

text \<open>
  The persona handler, for any two bindings of the clients. The request body is the result of
  \<open>request.json()\<close>, which may throw.
\<close>

definition personaHandler ::
  "ExaClient js_binding \<Rightarrow> OpenAIClient js_binding \<Rightarrow> Services
     \<Rightarrow> js_error + GeneratePersonaRequest \<Rightarrow> PersonaPayload NextResponse" where
  "personaHandler exa openai sv request_json =
     (case bind request_json (\<lambda>req.
             case xHandle req of
               None \<Rightarrow>
                 Inr \<lparr>status = 400,
                      body = \<lparr>success = False, payload = None,
                        error = Some ''Invalid X handle. Please provide a valid X username.''\<rparr>\<rparr>
             | Some h \<Rightarrow>
                 if h = []
                 then Inr \<lparr>status = 400,
                      body = \<lparr>success = False, payload = None,
                        error = Some ''Invalid X handle. Please provide a valid X username.''\<rparr>\<rparr>
                 else
                   bind (callMethod exa ''exaClient.searchXProfile''
                           (\<lambda>c. searchXProfile (axios_post sv) c (cleanHandle h))) (\<lambda>searchResult.
                   bind (callMethod exa ''exaClient.extractProfileInfo''
                           (\<lambda>c. Inr (extractProfileInfo searchResult))) (\<lambda>profileInfo.
                   if length (tweets profileInfo) = 0
                   then Inr \<lparr>status = 404,
                        body = \<lparr>success = False, payload = None,
                          error = Some ''Could not find X profile data. Please check the handle and try again.''\<rparr>\<rparr>
                   else
                     bind (callMethod openai ''openaiClient.generatePersona''
                             (\<lambda>c. generatePersona (chat_create sv) (JSON_parse sv) c
                                    \<lparr>recentTweets = tweets profileInfo,
                                     contextBio = (if truthy (bio profileInfo) then bio profileInfo
                                                   else Some []),
                                     profileDescription = None\<rparr>)) (\<lambda>personaData.
                     Inr \<lparr>status = 200,
                          body = \<lparr>success = True,
                            payload = Some (personaData, profileImageUrl profileInfo),
                            error = None\<rparr>\<rparr>)))) of
        Inl e \<Rightarrow>
          \<lparr>status = 500,
           body = \<lparr>success = False, payload = None,
             error = Some ''Failed to generate persona. Please try again later.''\<rparr>\<rparr>
      | Inr response \<Rightarrow> response)"

text \<open>The handler as the route file has it, with the two imports of the source.\<close>

definition POST_persona ::
  "Services \<Rightarrow> js_error + GeneratePersonaRequest \<Rightarrow> PersonaPayload NextResponse" where
  "POST_persona sv request_json =
     personaHandler (exaClient (EXA_API_KEY sv)) (openaiClient (OPENAI_API_KEY sv)) sv request_json"

record LatLng =
  lat :: real
  lng :: real

record Location =
  location_id :: string
  location_name :: string
  address :: string
  description :: string
  category :: string
  coordinates :: LatLng
  rating :: "real option"

record RequestPersona =
  persona_name :: string
  persona_handle :: string
  persona_bio :: string
  traits :: "string list"
  interests :: "string list"

record GenerateLocationsRequest =
  persona :: "RequestPersona option"
  location :: "string option"

text \<open>
  The locations handler. The module app/lib/google-maps is not part of the sources at hand:
  \<open>googleMapsClient().findRecommendedLocations\<close> is a parameter, which may throw.
\<close>

definition POST_locations ::
  "(RequestPersona \<Rightarrow> string \<Rightarrow> js_error + Location list)
     \<Rightarrow> js_error + GenerateLocationsRequest \<Rightarrow> (Location list) NextResponse" where
  "POST_locations findRecommendedLocations request_json =
     (case bind request_json (\<lambda>req.
             case (persona req, location req) of
               (Some p, Some l) \<Rightarrow>
                 if l = []
                 then Inr \<lparr>status = 400,
                      body = \<lparr>success = False, payload = None,
                        error = Some ''Invalid request. Please provide both persona and location.''\<rparr>\<rparr>
                 else
                   bind (findRecommendedLocations p l) (\<lambda>recommendedLocations.
                   if length recommendedLocations = 0
                   then Inr \<lparr>status = 404,
                        body = \<lparr>success = False, payload = None,
                          error = Some ''No suitable locations found. Please try a different location or X profile.''\<rparr>\<rparr>
                   else Inr \<lparr>status = 200,
                        body = \<lparr>success = True, payload = Some recommendedLocations,
                          error = None\<rparr>\<rparr>)
             | _ \<Rightarrow>
                 Inr \<lparr>status = 400,
                      body = \<lparr>success = False, payload = None,
                        error = Some ''Invalid request. Please provide both persona and location.''\<rparr>\<rparr>) of
        Inl e \<Rightarrow>
          \<lparr>status = 500,
           body = \<lparr>success = False, payload = None,
             error = Some ''Failed to find recommended locations. Please try again later.''\<rparr>\<rparr>
      | Inr response \<Rightarrow> response)"

section \<open>Presentation layer (components/LocationMap.tsx, components/LocationList.tsx)\<close>



text \<open>
  One run of the effect that sets \<open>mapCenter\<close>, returning the new state. The bounds of
  \<open>google.maps.LatLngBounds\<close>, extended by every coordinate, are a parameter that gives the
  north-east and the south-west corner.
\<close>

definition mapCenterEffect ::
  "(LatLng list \<Rightarrow> LatLng \<times> LatLng) \<Rightarrow> Location list \<Rightarrow> LatLng option \<Rightarrow> LatLng option
     \<Rightarrow> LatLng option" where
  "mapCenterEffect bounds locations centerCoordinates mapCenter =
     (if length locations > 0 \<and> centerCoordinates = None \<and> mapCenter = None
      then (case bounds (map coordinates locations) of
              (ne, sw) \<Rightarrow> Some \<lparr>lat = (lat ne + lat sw) / 2, lng = (lng ne + lng sw) / 2\<rparr>)
      else if centerCoordinates \<noteq> None then centerCoordinates
      else mapCenter)"







text \<open>
  The value of \<open>obj[key]\<close> for an object literal with string properties: its own string, or
  the member of that name that every object inherits from \<open>Object.prototype\<close> (a built-in
  function, or an object for \<open>__proto__\<close>), or \<open>undefined\<close>.
\<close>

datatype property_value = Own string | Inherited string

definition Object_prototype :: "string list" where
  "Object_prototype =
     [''constructor'', ''__defineGetter__'', ''__defineSetter__'', ''hasOwnProperty'',
      ''__lookupGetter__'', ''__lookupSetter__'', ''isPrototypeOf'', ''propertyIsEnumerable'',
      ''toString'', ''valueOf'', ''__proto__'', ''toLocaleString'']"

definition getProperty :: "(string \<times> string) list \<Rightarrow> string \<Rightarrow> property_value option" where
  "getProperty obj key =
     (case map_of obj key of
        Some v \<Rightarrow> Some (Own v)
      | None \<Rightarrow> if key \<in> set Object_prototype then Some (Inherited key) else None)"

text \<open>\<open>a || b\<close>: a function or an object is truthy, a string is truthy when not empty.\<close>

definition orElse :: "property_value option \<Rightarrow> property_value option \<Rightarrow> property_value option" where
  "orElse a b =
     (case a of
        None \<Rightarrow> b
      | Some (Own s) \<Rightarrow> if s = [] then b else a
      | Some (Inherited k) \<Rightarrow> a)"

text \<open>The table of \<open>getCategoryEmoji\<close>; each emoji is given by its UTF-8 bytes.\<close>

definition categories :: "(string \<times> string) list" where
  "categories =
     [(''restaurant'', [CHR 0xF0, CHR 0x9F, CHR 0x8D, CHR 0xBD, CHR 0xEF, CHR 0xB8, CHR 0x8F]),
      (''cafe'', [CHR 0xE2, CHR 0x98, CHR 0x95]),
      (''bar'', [CHR 0xF0, CHR 0x9F, CHR 0x8D, CHR 0xB8]),
      (''park'', [CHR 0xF0, CHR 0x9F, CHR 0x8C, CHR 0xB3]),
      (''museum'', [CHR 0xF0, CHR 0x9F, CHR 0x8F, CHR 0x9B, CHR 0xEF, CHR 0xB8, CHR 0x8F]),
      (''shopping'', [CHR 0xF0, CHR 0x9F, CHR 0x9B, CHR 0x8D, CHR 0xEF, CHR 0xB8, CHR 0x8F]),
      (''entertainment'', [CHR 0xF0, CHR 0x9F, CHR 0x8E, CHR 0xAD]),
      (''sports'', [CHR 0xF0, CHR 0x9F, CHR 0x8F, CHR 0x83]),
      (''fitness'', [CHR 0xF0, CHR 0x9F, CHR 0x92, CHR 0xAA]),
      (''education'', [CHR 0xF0, CHR 0x9F, CHR 0x93, CHR 0x9A]),
      (''work'', [CHR 0xF0, CHR 0x9F, CHR 0x92, CHR 0xBC]),
      (''tech'', [CHR 0xF0, CHR 0x9F, CHR 0x92, CHR 0xBB]),
      (''art'', [CHR 0xF0, CHR 0x9F, CHR 0x8E, CHR 0xA8]),
      (''music'', [CHR 0xF0, CHR 0x9F, CHR 0x8E, CHR 0xB5]),
      (''outdoor'', [CHR 0xF0, CHR 0x9F, CHR 0x8F, CHR 0x9E, CHR 0xEF, CHR 0xB8, CHR 0x8F]),
      (''default'', [CHR 0xF0, CHR 0x9F, CHR 0x93, CHR 0x8D])]"

definition getCategoryEmoji :: "string \<Rightarrow> property_value option" where
  "getCategoryEmoji cat =
     orElse (getProperty categories (toLowerCase cat)) (getProperty categories ''default'')"

text \<open>The table of \<open>getCategoryIcon\<close>.\<close>

definition colors :: "(string \<times> string) list" where
  "colors =
     [(''restaurant'', ''FF5252''),
      (''cafe'', ''FFAB40''),
      (''bar'', ''7C4DFF''),
      (''park'', ''66BB6A''),
      (''museum'', ''FFC107''),
      (''shopping'', ''EC407A''),
      (''entertainment'', ''448AFF''),
      (''sports'', ''26A69A''),
      (''fitness'', ''EF5350''),
      (''education'', ''5C6BC0''),
      (''work'', ''78909C''),
      (''tech'', ''42A5F5''),
      (''art'', ''AB47BC''),
      (''music'', ''26C6DA''),
      (''outdoor'', ''9CCC65''),
      (''default'', ''757575'')]"

text \<open>
  The icon of a marker: the profile image when there is one, else a circle whose fill colour
  is \<open>#\<close> followed by the string conversion of the value found for the category.
\<close>

datatype marker_icon =
  ImageIcon string
  | CircleSymbol "property_value option" real

definition getCategoryIcon :: "string option \<Rightarrow> string \<Rightarrow> bool \<Rightarrow> marker_icon" where
  "getCategoryIcon profileImage cat selected =
     (case profileImage of
        None \<Rightarrow>
          CircleSymbol
            (orElse (getProperty colors (toLowerCase cat)) (getProperty colors ''default''))
            ((if selected then 36 else 28) / 10)
      | Some u \<Rightarrow>
          if u = []
          then CircleSymbol
            (orElse (getProperty colors (toLowerCase cat)) (getProperty colors ''default''))
            ((if selected then 36 else 28) / 10)
          else ImageIcon u)"


section \<open>The claims in the words of the specification, and example inputs\<close>

text \<open>
  The name that a chunk offers: the trimmed first group of the match of its title, if the
  title is there and matches.
\<close>

definition offeredName :: "ExaChunk \<Rightarrow> string option" where
  "offeredName chunk =
     (case chunk_title chunk of
        None \<Rightarrow> None
      | Some t \<Rightarrow> (case titleMatch t of None \<Rightarrow> None | Some m \<Rightarrow> Some (trim m)))"

text \<open>
  The name as the specification words it: the offer of the first chunk whose title matches.
\<close>

definition claimed_name :: "ExaChunk list \<Rightarrow> string option" where
  "claimed_name cs =
     (case filter (\<lambda>c. offeredName c \<noteq> None) cs of [] \<Rightarrow> None | c # rest \<Rightarrow> offeredName c)"

text \<open>
  The bio as the specification words it: the lines of the text as they are split, without
  trimming, of the chunks that are not posts; the first line kept is the bio.
\<close>

definition claimed_bioLines :: "string \<Rightarrow> string list" where
  "claimed_bioLines t =
     filter (\<lambda>line. length line > 10 \<and>
                    \<not> str_includes line ''Followers'' \<and>
                    \<not> str_includes line ''Following'' \<and>
                    \<not> str_includes line ''Posts'' \<and>
                    \<not> startsWith line ''@'')
            (split t (CHR 0x0A))"

definition claimed_bio :: "ExaChunk list \<Rightarrow> string option" where
  "claimed_bio cs =
     (case concat (map (\<lambda>c. claimed_bioLines (text c))
                    (filter (\<lambda>c. \<not> str_includes (url c) ''/status/'') cs)) of
        [] \<Rightarrow> None
      | l # ls \<Rightarrow> Some l)"

text \<open>
  The same with the trimming of the source: the lines of \<open>bioLines\<close>, over the chunks that
  are not posts, in the order of the chunks; the first of them is the bio.
\<close>

definition bioCandidates :: "ExaChunk list \<Rightarrow> string list" where
  "bioCandidates cs =
     concat (map (\<lambda>c. bioLines (text c)) (filter (\<lambda>c. \<not> str_includes (url c) ''/status/'') cs))"

definition firstBioLine :: "ExaChunk list \<Rightarrow> string option" where
  "firstBioLine cs = (case bioCandidates cs of [] \<Rightarrow> None | l # ls \<Rightarrow> Some l)"

text \<open>Example inputs.\<close>

definition status_chunk :: "string \<Rightarrow> string option \<Rightarrow> string option \<Rightarrow> ExaChunk" where
  "status_chunk t ti im =
     \<lparr>text = t, url = ''https://x.com/jdoe/status/1'',
      extra_info = Some \<lparr>title = ti, author = None, publish_date = None, image_url = im\<rparr>\<rparr>"

definition two_images :: ExaSearchResult where
  "two_images =
     \<lparr>chunks =
        [status_chunk ''hello world'' None None,
         status_chunk ''first post'' None (Some ''https://img.example/a.png''),
         status_chunk ''second post'' None (Some ''https://img.example/b.png'')],
      total_chunk_count = 3\<rparr>"

definition padded_profile :: ExaSearchResult where
  "padded_profile =
     \<lparr>chunks = [\<lparr>text = ''  @jdoe joined  '' @ [CHR 0x0A] @ ''Loves hiking and open source.'',
                 url = ''https://x.com/jdoe'', extra_info = None\<rparr>],
      total_chunk_count = 1\<rparr>"

definition followers_then_bio :: ExaSearchResult where
  "followers_then_bio =
     \<lparr>chunks = [\<lparr>text = ''Followers: 200'', url = ''https://x.com/jdoe'', extra_info = None\<rparr>,
                \<lparr>text = ''Loves hiking and open source.'', url = ''https://x.com/jdoe'',
                 extra_info = None\<rparr>],
      total_chunk_count = 2\<rparr>"

definition blank_title_first :: ExaSearchResult where
  "blank_title_first =
     \<lparr>chunks = [status_chunk ''a'' (Some '' (@jdoe) / X'') None,
                status_chunk ''b'' (Some ''John Doe (@jdoe) / X'') None],
      total_chunk_count = 2\<rparr>"

definition three_titles :: ExaSearchResult where
  "three_titles =
     \<lparr>chunks = [status_chunk ''a'' (Some ''(no name)'') None,
                status_chunk ''b'' (Some ''John Doe (@jdoe) / X'') None,
                status_chunk ''c'' (Some ''Jane Roe (@jroe) / X'') None],
      total_chunk_count = 3\<rparr>"

definition reply_without_interests :: "(string \<times> json) list" where
  "reply_without_interests =
     [(''name'', JString ''John Doe''), (''traits'', JArray [JString ''curious''])]"

definition one_choice :: ChatResponse where
  "one_choice = \<lparr>choices = [\<lparr>message = Some \<lparr>content = Some ''{...}''\<rparr>\<rparr>]\<rparr>"

definition hiker :: RequestPersona where
  "hiker =
     \<lparr>persona_name = ''John Doe'', persona_handle = ''jdoe'',
      persona_bio = ''Loves hiking and open source.'',
      traits = [''curious''], interests = [''hiking'']\<rparr>"

definition eleven_tweets :: PersonaGenerationContext where
  "eleven_tweets =
     \<lparr>recentTweets = [''t1'', ''t2'', ''t3'', ''t4'', ''t5'', ''t6'', ''t7'', ''t8'', ''t9'', ''t10'',
                       ''t11''],
      contextBio = Some ''Loves hiking and open source.'',
      profileDescription = None\<rparr>"

text \<open>Services whose search finds no chunk at all; the other two are never reached.\<close>

definition no_posts :: Services where
  "no_posts =
     \<lparr>EXA_API_KEY = Some ''exa-key'',
      OPENAI_API_KEY = Some ''openai-key'',
      axios_post = (\<lambda>request key. Inr \<lparr>chunks = [], total_chunk_count = 0\<rparr>),
      chat_create = (\<lambda>request. Inl (Error ''not reached'')),
      JSON_parse = (\<lambda>s. Inl (Error ''not reached''))\<rparr>"

definition complete_reply :: "(string \<times> json) list" where
  "complete_reply =
     [(''name'', JString ''John Doe''), (''traits'', JArray [JString ''curious'']),
      (''interests'', JArray [JString ''hiking''])]"

definition first_ten :: PersonaGenerationContext where
  "first_ten =
     \<lparr>recentTweets = [''t1'', ''t2'', ''t3'', ''t4'', ''t5'', ''t6'', ''t7'', ''t8'', ''t9'', ''t10''],
      contextBio = Some ''Loves hiking and open source.'',
      profileDescription = None\<rparr>"

text \<open>A chat-completion API that answers one request only, and a search API likewise.\<close>

definition answers_only :: "ChatRequest \<Rightarrow> ChatRequest \<Rightarrow> js_error + ChatResponse" where
  "answers_only expected request =
     (if request = expected then Inr one_choice else Inl (Error ''unexpected request''))"

definition finds_only :: "string \<Rightarrow> ExaRequest \<Rightarrow> string option \<Rightarrow> js_error + ExaSearchResult" where
  "finds_only q request key =
     (if str_includes (query request) q then Inr two_images else Inl (Error ''unexpected query''))"


section \<open>Properties of the extraction\<close>

text \<open>Each step of the scan reads and writes one field only.\<close>

lemma tweets_process_chunk:
  "tweets (process_chunk p c) =
     (if text c \<noteq> [] \<and> trim (text c) \<noteq> [] then tweets p @ [trim (text c)] else tweets p)"
  by (simp add: process_chunk_def step_bio_def step_name_def step_image_def step_tweets_def
      split: list.split option.split)

lemma image_process_chunk:
  "profileImageUrl (process_chunk p c) =
     (if \<not> truthy (profileImageUrl p) \<and> truthy (chunk_image_url c)
      then chunk_image_url c else profileImageUrl p)"
  by (simp add: process_chunk_def step_bio_def step_name_def step_image_def step_tweets_def
      split: list.split option.split)

lemma name_process_chunk:
  "name (process_chunk p c) =
     (if \<not> truthy (name p) \<and> truthy (chunk_title c)
      then (case chunk_title c of
              None \<Rightarrow> name p
            | Some t \<Rightarrow> (case titleMatch t of None \<Rightarrow> name p | Some m \<Rightarrow> Some (trim m)))
      else name p)"
  by (simp add: process_chunk_def step_bio_def step_name_def step_image_def step_tweets_def
      split: list.split option.split)

lemma bio_process_chunk:
  "bio (process_chunk p c) =
     (if \<not> truthy (bio p) \<and> \<not> str_includes (url c) ''/status/''
      then (case bioLines (text c) of [] \<Rightarrow> bio p | l # ls \<Rightarrow> Some l)
      else bio p)"
  by (simp add: process_chunk_def step_bio_def step_name_def step_image_def step_tweets_def
      split: list.split option.split)

subsection \<open>Tweets\<close>

lemma tweets_fold:
  "tweets (foldl process_chunk p cs) =
     tweets p @ map (\<lambda>c. trim (text c)) (filter (\<lambda>c. trim (text c) \<noteq> []) cs)"
proof (induction cs arbitrary: p)
  case Nil
  then show ?case by simp
next
  case (Cons c cs)
  have "trim [] = []" by (simp add: trim_def)
  then have "(text c \<noteq> [] \<and> trim (text c) \<noteq> []) = (trim (text c) \<noteq> [])" by auto
  then show ?case by (simp add: Cons.IH tweets_process_chunk)
qed

lemma tweets_extractProfileInfo:
  "tweets (extractProfileInfo searchResult) =
     map (\<lambda>c. trim (text c)) (filter (\<lambda>c. trim (text c) \<noteq> []) (chunks searchResult))"
  by (simp add: extractProfileInfo_def tweets_fold)

subsection \<open>Profile image\<close>

lemma image_locked:
  "truthy (profileImageUrl p) \<Longrightarrow> profileImageUrl (foldl process_chunk p cs) = profileImageUrl p"
  by (induction cs arbitrary: p) (simp_all add: image_process_chunk)

lemma image_skipped:
  "\<forall>c\<in>set cs. \<not> truthy (chunk_image_url c) \<Longrightarrow>
   profileImageUrl (foldl process_chunk p cs) = profileImageUrl p"
  by (induction cs arbitrary: p) (simp_all add: image_process_chunk)

text \<open>
  C5. A chunk exposes an image URL when its metadata holds a non-empty \<open>image_url\<close>. If the
  chunks are \<open>pre @ c # post\<close>, no chunk of \<open>pre\<close> exposes an image URL and \<open>c\<close> does, then the
  extracted \<open>profileImageUrl\<close> is the image URL of \<open>c\<close>, whatever the later chunks \<open>post\<close>
  expose.
\<close>

theorem first_image_url_wins:
  assumes "chunks searchResult = pre @ c # post"
    and "\<forall>p\<in>set pre. \<not> truthy (chunk_image_url p)"
    and "truthy (chunk_image_url c)"
  shows "profileImageUrl (extractProfileInfo searchResult) = chunk_image_url c"
proof -
  let ?init = "\<lparr>tweets = [], bio = None, profileImageUrl = None, name = None\<rparr>"
  let ?mid = "foldl process_chunk ?init pre"
  have "profileImageUrl ?mid = None"
    using assms(2) by (simp add: image_skipped)
  then have "profileImageUrl (process_chunk ?mid c) = chunk_image_url c"
    using assms(3) by (simp add: image_process_chunk truthy_def)
  then have "profileImageUrl (foldl process_chunk (process_chunk ?mid c) post) = chunk_image_url c"
    using assms(3) by (simp add: image_locked)
  then show ?thesis
    using assms(1) by (simp add: extractProfileInfo_def)
qed

theorem first_image_url_wins_witness:
  "profileImageUrl (extractProfileInfo two_images) = Some ''https://img.example/a.png''"
proof -
  have a: "chunks two_images =
      [status_chunk ''hello world'' None None] @
      status_chunk ''first post'' None (Some ''https://img.example/a.png'') #
      [status_chunk ''second post'' None (Some ''https://img.example/b.png'')]"
    by (simp add: two_images_def)
  have b: "\<forall>p\<in>set [status_chunk ''hello world'' None None]. \<not> truthy (chunk_image_url p)"
    by (simp add: status_chunk_def chunk_image_url_def truthy_def)
  have c: "truthy (chunk_image_url (status_chunk ''first post'' None (Some ''https://img.example/a.png'')))"
    by (simp add: status_chunk_def chunk_image_url_def truthy_def)
  show ?thesis
    using first_image_url_wins [OF a b c] by (simp add: status_chunk_def chunk_image_url_def)
qed

subsection \<open>Display name\<close>

lemma titleMatch_empty: "titleMatch [] = None"
  by (simp add: titleMatch_def)

lemma name_step:
  "name (process_chunk p c) =
     (if \<not> truthy (name p) \<and> offeredName c \<noteq> None then offeredName c else name p)"
  by (auto simp: name_process_chunk offeredName_def truthy_def titleMatch_empty
      split: option.splits)

lemma name_locked: "truthy (name p) \<Longrightarrow> name (foldl process_chunk p cs) = name p"
  by (induction cs arbitrary: p) (simp_all add: name_step)

lemma name_not_truthy:
  "\<not> truthy (name p) \<Longrightarrow> \<forall>c\<in>set cs. \<not> truthy (offeredName c) \<Longrightarrow>
   \<not> truthy (name (foldl process_chunk p cs))"
  by (induction cs arbitrary: p) (simp_all add: name_step)

text \<open>
  C9, as the specification states it, fails: the first chunk whose title matches may offer a
  blank name (a title that starts with white space and a parenthesis). The empty name is
  falsy, so the next title that matches replaces it. Here the first matching chunk offers
  the empty name and the extracted name is that of the second chunk.
\<close>

theorem first_match_name_counterexample:
  "claimed_name (chunks blank_title_first) = Some [] \<and>
   name (extractProfileInfo blank_title_first) = Some ''John Doe'' \<and>
   name (extractProfileInfo blank_title_first) \<noteq> claimed_name (chunks blank_title_first)"
  by code_simp

text \<open>
  C9, amended. If the chunks are \<open>pre @ c # post\<close>, no chunk of \<open>pre\<close> offers a non-empty
  name (its title is absent, or starts with a parenthesis, or has only white space before the
  first parenthesis) and \<open>c\<close> offers the non-empty name \<open>n\<close>, the trimmed text of its title
  before the first parenthesis, then the extracted name is \<open>n\<close>, whatever the later chunks
  \<open>post\<close> offer.
\<close>

theorem first_nonblank_name_wins:
  assumes "chunks searchResult = pre @ c # post"
    and "\<forall>p\<in>set pre. \<not> truthy (offeredName p)"
    and "offeredName c = Some n"
    and "n \<noteq> []"
  shows "name (extractProfileInfo searchResult) = Some n"
proof -
  let ?init = "\<lparr>tweets = [], bio = None, profileImageUrl = None, name = None\<rparr>"
  let ?mid = "foldl process_chunk ?init pre"
  have "\<not> truthy (name ?init)"
    by (simp add: truthy_def)
  then have "\<not> truthy (name ?mid)"
    using assms(2) by (rule name_not_truthy)
  then have set: "name (process_chunk ?mid c) = Some n"
    using assms(3) by (simp add: name_step)
  then have "truthy (name (process_chunk ?mid c))"
    using assms(4) by (simp add: truthy_def)
  then have "name (foldl process_chunk (process_chunk ?mid c) post) = Some n"
    using set by (simp add: name_locked)
  then show ?thesis
    using assms(1) by (simp add: extractProfileInfo_def)
qed

theorem first_nonblank_name_wins_witness:
  "name (extractProfileInfo three_titles) = Some ''John Doe''"
proof -
  have a: "chunks three_titles =
      [status_chunk ''a'' (Some ''(no name)'') None] @
      status_chunk ''b'' (Some ''John Doe (@jdoe) / X'') None #
      [status_chunk ''c'' (Some ''Jane Roe (@jroe) / X'') None]"
    by (simp add: three_titles_def)
  have b: "\<forall>p\<in>set [status_chunk ''a'' (Some ''(no name)'') None]. \<not> truthy (offeredName p)"
    by code_simp
  have c: "offeredName (status_chunk ''b'' (Some ''John Doe (@jdoe) / X'') None) = Some ''John Doe''"
    by code_simp
  show ?thesis
    using first_nonblank_name_wins [OF a b c] by simp
qed

subsection \<open>Bio\<close>

lemma bioLines_nonempty: "l \<in> set (bioLines t) \<Longrightarrow> l \<noteq> []"
  by (auto simp: bioLines_def)

lemma bio_locked: "truthy (bio p) \<Longrightarrow> bio (foldl process_chunk p cs) = bio p"
  by (induction cs arbitrary: p) (simp_all add: bio_process_chunk)

lemma bio_fold:
  "\<not> truthy (bio p) \<Longrightarrow>
   bio (foldl process_chunk p cs) = (case bioCandidates cs of [] \<Rightarrow> bio p | l # ls \<Rightarrow> Some l)"
proof (induction cs arbitrary: p)
  case Nil
  then show ?case by (simp add: bioCandidates_def)
next
  case (Cons c cs)
  show ?case
  proof (cases "\<not> str_includes (url c) ''/status/'' \<and> bioLines (text c) \<noteq> []")
    case True
    then obtain l ls where l: "bioLines (text c) = l # ls"
      by (cases "bioLines (text c)") auto
    then have "l \<noteq> []"
      using bioLines_nonempty [of l "text c"] by simp
    then have "truthy (bio (process_chunk p c))" "bio (process_chunk p c) = Some l"
      using True l Cons.prems by (simp_all add: bio_process_chunk truthy_def)
    then show ?thesis
      using True l by (simp add: bio_locked bioCandidates_def)
  next
    case False
    then have same: "bio (process_chunk p c) = bio p"
      by (auto simp: bio_process_chunk)
    have "bioCandidates (c # cs) = bioCandidates cs"
      using False by (auto simp: bioCandidates_def)
    then show ?thesis
      using Cons.IH [of "process_chunk p c"] Cons.prems same by (simp split: list.split)
  qed
qed

text \<open>
  C1, as the specification states it, fails: the source trims every line before it filters
  the lines, and the bio is the trimmed line. Here the first line of a profile page is
  \<open>@jdoe joined\<close> between blanks: untrimmed it is longer than 10 characters and does not
  start with \<open>@\<close>, so that the specification makes it the bio; the source drops it and takes
  the second line.
\<close>

theorem bio_untrimmed_counterexample:
  "claimed_bio (chunks padded_profile) = Some ''  @jdoe joined  '' \<and>
   bio (extractProfileInfo padded_profile) = Some ''Loves hiking and open source.'' \<and>
   bio (extractProfileInfo padded_profile) \<noteq> claimed_bio (chunks padded_profile)"
  by code_simp

text \<open>
  C1, amended. Only the chunks whose URL does not contain \<open>/status/\<close> are considered; the
  text of each is split into lines and every line is trimmed; the trimmed lines longer than
  10 characters that contain none of \<open>Followers\<close>, \<open>Following\<close>, \<open>Posts\<close> and do not start
  with \<open>@\<close> are kept; the bio is the first line kept, in the order of the chunks (and there is
  no bio when no line is kept), so that no later line replaces it.
\<close>

theorem bio_is_first_trimmed_line:
  "bio (extractProfileInfo searchResult) = firstBioLine (chunks searchResult)"
  by (simp add: extractProfileInfo_def firstBioLine_def bio_fold truthy_def split: list.split)

theorem bio_is_first_trimmed_line_witness:
  "bio (extractProfileInfo followers_then_bio) = Some ''Loves hiking and open source.''"
proof -
  have "firstBioLine (chunks followers_then_bio) = Some ''Loves hiking and open source.''"
    by code_simp
  then show ?thesis
    using bio_is_first_trimmed_line [of followers_then_bio] by simp
qed

subsection \<open>Handle\<close>

lemma cleanHandle_at: "cleanHandle (CHR ''@'' # h) = h"
  by (simp add: cleanHandle_def)

text \<open>
  The request that \<open>searchXProfile\<close> posts: whatever the search API is, the result is the
  reply of the API to the request built from the handle (wrapped by the \<open>catch\<close>).
\<close>

lemma searchXProfile_posts:
  "truthy (apiKey this) \<Longrightarrow>
   searchXProfile search_api this handle =
     (case search_api (searchRequest handle) (apiKey this) of
        Inl e \<Rightarrow> Inl (Error ''Failed to search X profile'')
      | Inr r \<Rightarrow> Inr r)"
  by (simp add: searchXProfile_def validateApiKey_def)

text \<open>
  The persona handler reads the handle through \<open>cleanHandle\<close> only: with a leading \<open>@\<close>
  or without it, the search, the prompts and the response are the same.
\<close>

lemma personaHandler_at:
  assumes "h \<noteq> []" and "cleanHandle h = h"
  shows "personaHandler exa openai sv (Inr \<lparr>xHandle = Some (CHR ''@'' # h)\<rparr>) =
     personaHandler exa openai sv (Inr \<lparr>xHandle = Some h\<rparr>)"
  using assms by (simp add: personaHandler_def bind_def cleanHandle_at)

text \<open>
  C6. For every handle that starts with \<open>@\<close>, the cleaned handle is the handle without this
  first character. With an API key, \<open>searchXProfile\<close> posts the request whose query is built
  from the cleaned handle: for every search API, its result is the reply of the API to that
  request. The persona handler does the same for a handle with the leading \<open>@\<close> and for the
  handle without it, prompts included (the prompts embed no handle). The handle \<open>@jdoe\<close> is
  cleaned to \<open>jdoe\<close>, and a search API that answers only the queries that embed
  \<open>from:jdoe\<close> answers the search for \<open>@jdoe\<close>.
\<close>

theorem leading_at_stripped:
  "cleanHandle (CHR ''@'' # h) = h \<and>
   (truthy (apiKey this) \<longrightarrow>
      searchXProfile search_api this (CHR ''@'' # h) =
        (case search_api
                \<lparr>query = ''site:twitter.com @'' @ h @ '' OR from:'' @ h,
                 num_results = 10,
                 use_autoprompt = True,
                 include_domains = [''twitter.com'', ''x.com''],
                 highlights = True,
                 text_search_strategy = ''keyword''\<rparr>
                (apiKey this) of
           Inl e \<Rightarrow> Inl (Error ''Failed to search X profile'')
         | Inr r \<Rightarrow> Inr r)) \<and>
   (h \<noteq> [] \<and> cleanHandle h = h \<longrightarrow>
      personaHandler exa openai sv (Inr \<lparr>xHandle = Some (CHR ''@'' # h)\<rparr>) =
      personaHandler exa openai sv (Inr \<lparr>xHandle = Some h\<rparr>)) \<and>
   cleanHandle ''@jdoe'' = ''jdoe'' \<and>
   (truthy (apiKey this) \<longrightarrow>
      searchXProfile (finds_only ''from:jdoe'') this ''@jdoe'' = Inr two_images)"
proof -
  have "truthy (apiKey this) \<Longrightarrow>
      searchXProfile search_api this (CHR ''@'' # h) =
        (case search_api
                \<lparr>query = ''site:twitter.com @'' @ h @ '' OR from:'' @ h,
                 num_results = 10,
                 use_autoprompt = True,
                 include_domains = [''twitter.com'', ''x.com''],
                 highlights = True,
                 text_search_strategy = ''keyword''\<rparr>
                (apiKey this) of
           Inl e \<Rightarrow> Inl (Error ''Failed to search X profile'')
         | Inr r \<Rightarrow> Inr r)"
    by (simp add: searchXProfile_posts searchRequest_def cleanHandle_at)
  moreover have "truthy (apiKey this) \<Longrightarrow>
      searchXProfile (finds_only ''from:jdoe'') this ''@jdoe'' = Inr two_images"
    by (simp add: searchXProfile_posts searchRequest_def cleanHandle_at finds_only_def)
  moreover have "cleanHandle ''@jdoe'' = ''jdoe''"
    by (simp add: cleanHandle_at)
  ultimately show ?thesis
    using cleanHandle_at personaHandler_at by blast
qed

theorem leading_at_stripped_witness:
  "searchXProfile (finds_only ''from:jdoe'') (new_ExaClient (Some ''exa-key'') None) ''@jdoe'' =
     Inr two_images \<and>
   personaHandler (Object (new_ExaClient (Some ''exa-key'') None))
       (Object (new_OpenAIClient (Some ''openai-key'') None)) no_posts
       (Inr \<lparr>xHandle = Some ''@jdoe''\<rparr>) =
     personaHandler (Object (new_ExaClient (Some ''exa-key'') None))
       (Object (new_OpenAIClient (Some ''openai-key'') None)) no_posts
       (Inr \<lparr>xHandle = Some ''jdoe''\<rparr>)"
proof -
  have a: "truthy (apiKey (new_ExaClient (Some ''exa-key'') None))"
    by (simp add: new_ExaClient_def truthy_def)
  have b: "''jdoe'' \<noteq> [] \<and> cleanHandle ''jdoe'' = ''jdoe''"
    by (simp add: cleanHandle_def)
  show ?thesis
    using a b leading_at_stripped [of "''jdoe''" "new_ExaClient (Some ''exa-key'') None"
        "finds_only ''from:jdoe''" "Object (new_ExaClient (Some ''exa-key'') None)"
        "Object (new_OpenAIClient (Some ''openai-key'') None)" no_posts]
    by blast
qed

section \<open>Properties of the persona generator\<close>

lemma validatePersona_ok:
  "validatePersona v = Inr p \<Longrightarrow>
     p = v \<and>
     (\<exists>fs. v = JObject fs \<and> json_truthy (map_of fs ''name'') \<and>
        json_truthy (map_of fs ''traits'') \<and> json_truthy (map_of fs ''interests''))"
  by (cases v) (auto simp: validatePersona_def bind_def split: if_splits)

lemma validatePersona_missing:
  "map_of fs ''name'' = None \<or> map_of fs ''traits'' = None \<or> map_of fs ''interests'' = None \<Longrightarrow>
   validatePersona (JObject fs) =
     Inl (Error ''Failed to generate persona: Invalid response format'')"
  by (auto simp: validatePersona_def bind_def)

lemma generatePersona_Inl:
  "generatePersona create parse this ctx = Inl e \<Longrightarrow> e = Error ''Failed to generate persona''"
  by (auto simp: generatePersona_def split: sum.splits)

lemma generatePersona_Inr:
  "generatePersona create parse this ctx = Inr p \<Longrightarrow>
     \<exists>response c. create (personaChatRequest ctx) = Inr response \<and>
        firstContent response = Some c \<and> parse c = Inr p \<and> validatePersona p = Inr p"
  by (auto simp: generatePersona_def bind_def split: sum.splits option.splits if_splits
      dest: validatePersona_ok)

text \<open>Whatever \<open>generatePersona\<close> returns is an object with the three fields, each truthy.\<close>

lemma generatePersona_complete:
  "generatePersona create parse this ctx = Inr p \<Longrightarrow>
     \<exists>fs. p = JObject fs \<and> json_truthy (map_of fs ''name'') \<and>
       json_truthy (map_of fs ''traits'') \<and> json_truthy (map_of fs ''interests'')"
  using generatePersona_Inr validatePersona_ok by blast

text \<open>
  C3. When the chat-completion API answers, the content of its first choice parses to a JSON
  object, and this object lacks one of the fields \<open>name\<close>, \<open>traits\<close>, \<open>interests\<close>, then
  \<open>generatePersona\<close> raises the generic generation failure: it returns no persona.
\<close>

theorem missing_field_is_failure:
  assumes "create (personaChatRequest ctx) = Inr response"
    and "firstContent response = Some c"
    and "parse c = Inr (JObject fs)"
    and "map_of fs ''name'' = None \<or> map_of fs ''traits'' = None \<or> map_of fs ''interests'' = None"
  shows "generatePersona create parse this ctx = Inl (Error ''Failed to generate persona'')"
proof (cases "generatePersona create parse this ctx")
  case (Inl e)
  then show ?thesis
    using generatePersona_Inl by blast
next
  case (Inr p)
  from generatePersona_Inr [OF Inr] assms(1,2,3)
  have "validatePersona (JObject fs) = Inr (JObject fs)"
    by auto
  with validatePersona_missing [OF assms(4)] show ?thesis
    by simp
qed

theorem missing_field_is_failure_witness:
  "generatePersona (\<lambda>request. Inr one_choice) (\<lambda>s. Inr (JObject reply_without_interests))
     (new_OpenAIClient (Some ''key'') None) eleven_tweets =
   Inl (Error ''Failed to generate persona'')"
proof -
  have a: "(\<lambda>request. Inr one_choice) (personaChatRequest eleven_tweets) = Inr one_choice"
    by simp
  have b: "firstContent one_choice = Some ''{...}''"
    by (simp add: firstContent_def one_choice_def)
  have c: "(\<lambda>s. Inr (JObject reply_without_interests)) ''{...}'' =
      Inr (JObject reply_without_interests)"
    by simp
  have d: "map_of reply_without_interests ''name'' = None \<or>
      map_of reply_without_interests ''traits'' = None \<or>
      map_of reply_without_interests ''interests'' = None"
    by (simp add: reply_without_interests_def)
  show ?thesis
    using missing_field_is_failure [OF a b c d] by simp
qed

subsection \<open>Prompts\<close>

lemma startsWith_append: "startsWith (p @ r) p"
  by (induction p) simp_all

lemma startsWith_extend: "startsWith t p \<Longrightarrow> startsWith (t @ r) p"
  by (induction t p rule: startsWith.induct) simp_all

lemma str_includes_here: "str_includes (p @ r) p"
proof (cases "p @ r")
  case Nil
  then show ?thesis by simp
next
  case (Cons c cs)
  have "startsWith (p @ r) p"
    by (rule startsWith_append)
  then have "startsWith (c # cs) p"
    using Cons by simp
  then have "str_includes (c # cs) p"
    by simp
  then show ?thesis
    using Cons by simp
qed

lemma str_includes_skip: "str_includes t p \<Longrightarrow> str_includes (a @ t) p"
  by (induction a) simp_all

lemma str_includes_extend: "str_includes t p \<Longrightarrow> str_includes (t @ r) p"
proof (induction t)
  case Nil
  then show ?case
    by (simp add: str_includes_here [of "[]" r, simplified])
next
  case (Cons c cs)
  then show ?case
    using startsWith_extend [of "c # cs" p r] by auto
qed

lemma userMessage_tweetList:
  "str_includes (userMessage ctx) (tweetList (recentTweets ctx))"
  unfolding userMessage_def by (rule str_includes_here | rule str_includes_skip)+

lemma createPersonaUserPrompt_tweetList:
  "str_includes (createPersonaUserPrompt ctx) (tweetList (recentTweets ctx))"
  unfolding createPersonaUserPrompt_def by (rule str_includes_here | rule str_includes_skip)+

lemma bioSection_bio: "b \<noteq> [] \<Longrightarrow> str_includes (bioSection (Some b)) (''Bio: '' @ b)"
proof -
  assume "b \<noteq> []"
  then have "bioSection (Some b) = (''Bio: '' @ b) @ (newline @ newline)"
    by (simp add: bioSection_def truthy_def)
  then show ?thesis
    by (simp only: str_includes_here)
qed

lemma userMessage_bio:
  assumes "contextBio ctx = Some b" "b \<noteq> []"
  shows "str_includes (userMessage ctx) (''Bio: '' @ b)"
proof -
  have "str_includes (bioSection (Some b)) (''Bio: '' @ b)"
    using assms(2) by (rule bioSection_bio)
  then have piece: "str_includes (bioSection (contextBio ctx) @ r) (''Bio: '' @ b)" for r
    using assms(1) by (simp only: str_includes_extend)
  show ?thesis
    unfolding userMessage_def by (rule piece | rule str_includes_skip)+
qed

lemma createPersonaUserPrompt_bio:
  assumes "contextBio ctx = Some b" "b \<noteq> []"
  shows "str_includes (createPersonaUserPrompt ctx) (''Bio: '' @ b)"
proof -
  have "str_includes (bioSection (Some b)) (''Bio: '' @ b)"
    using assms(2) by (rule bioSection_bio)
  then have piece: "str_includes (bioSection (contextBio ctx) @ r) (''Bio: '' @ b)" for r
    using assms(1) by (simp only: str_includes_extend)
  show ?thesis
    unfolding createPersonaUserPrompt_def by (rule piece | rule str_includes_skip)+
qed

lemma tweetList_take: "tweetList (take 10 ts) = tweetList ts"
  by (simp add: tweetList_def)

lemma userMessage_take:
  "userMessage (ctx\<lparr>recentTweets := take 10 (recentTweets ctx)\<rparr>) = userMessage ctx"
  by (simp add: userMessage_def tweetList_take)

lemma createPersonaUserPrompt_take:
  "createPersonaUserPrompt (ctx\<lparr>recentTweets := take 10 (recentTweets ctx)\<rparr>) =
     createPersonaUserPrompt ctx"
  by (simp add: createPersonaUserPrompt_def tweetList_take)

text \<open>
  The request that \<open>generatePersona\<close> sends: whatever the chat-completion API is, when it
  fails on the request built from the context the generation fails, and when it answers that
  request with a complete persona, this persona is the result.
\<close>

lemma generatePersona_sends_fails:
  "create (personaChatRequest ctx) = Inl e \<Longrightarrow>
   generatePersona create parse this ctx = Inl (Error ''Failed to generate persona'')"
  by (simp add: generatePersona_def bind_def split: sum.splits)

lemma validatePersona_complete:
  "json_truthy (map_of fs ''name'') \<Longrightarrow> json_truthy (map_of fs ''traits'') \<Longrightarrow>
   json_truthy (map_of fs ''interests'') \<Longrightarrow> validatePersona (JObject fs) = Inr (JObject fs)"
  by (simp add: validatePersona_def bind_def)

lemma generatePersona_sends_answers:
  assumes "truthy (openaiKey this)"
    and "create (personaChatRequest ctx) = Inr response"
    and "firstContent response = Some c" and "c \<noteq> []"
    and "parse c = Inr (JObject fs)"
    and "json_truthy (map_of fs ''name'')" and "json_truthy (map_of fs ''traits'')"
    and "json_truthy (map_of fs ''interests'')"
  shows "generatePersona create parse this ctx = Inr (JObject fs)"
proof -
  have "\<exists>this'. initializeClient this = Inr this'"
    using assms(1) by (simp add: initializeClient_def)
  moreover have "validatePersona (JObject fs) = Inr (JObject fs)"
    using assms(6,7,8) by (rule validatePersona_complete)
  ultimately show ?thesis
    using assms(2,3,4,5) by (auto simp: generatePersona_def bind_def)
qed

text \<open>
  C8. \<open>generatePersona\<close> sends one chat request, built from the context: for every
  chat-completion API, a failure of the API on this request is a failure of the generation,
  and a complete persona in its reply to this request is the result. The user message of this
  request, and the user prompt of \<open>PromptEngineer\<close>, embed the bulleted list of the first ten
  tweets, in their order, one per line, and are unchanged when the tweets are replaced by
  their first ten: no tweet after the tenth reaches the prompt. When the bio is present and
  not empty, both embed \<open>Bio: \<close> followed by the bio.
\<close>

theorem user_prompt_first_ten_and_bio:
  "(create (personaChatRequest ctx) = Inl e \<longrightarrow>
      generatePersona create parse this ctx = Inl (Error ''Failed to generate persona'')) \<and>
   (truthy (openaiKey this) \<and> create (personaChatRequest ctx) = Inr response \<and>
    firstContent response = Some c \<and> c \<noteq> [] \<and> parse c = Inr (JObject fs) \<and>
    json_truthy (map_of fs ''name'') \<and> json_truthy (map_of fs ''traits'') \<and>
    json_truthy (map_of fs ''interests'') \<longrightarrow>
      generatePersona create parse this ctx = Inr (JObject fs)) \<and>
   messages (personaChatRequest ctx) = [(''system'', systemPrompt), (''user'', userMessage ctx)] \<and>
   personaChatRequest (ctx\<lparr>recentTweets := take 10 (recentTweets ctx)\<rparr>) = personaChatRequest ctx \<and>
   userMessage (ctx\<lparr>recentTweets := take 10 (recentTweets ctx)\<rparr>) = userMessage ctx \<and>
   createPersonaUserPrompt (ctx\<lparr>recentTweets := take 10 (recentTweets ctx)\<rparr>) =
     createPersonaUserPrompt ctx \<and>
   str_includes (userMessage ctx)
     (join (map (\<lambda>tweet. bullet @ '' '' @ tweet) (take 10 (recentTweets ctx))) newline) \<and>
   str_includes (createPersonaUserPrompt ctx)
     (join (map (\<lambda>tweet. bullet @ '' '' @ tweet) (take 10 (recentTweets ctx))) newline) \<and>
   (contextBio ctx = Some b \<and> b \<noteq> [] \<longrightarrow>
      str_includes (userMessage ctx) (''Bio: '' @ b) \<and>
      str_includes (createPersonaUserPrompt ctx) (''Bio: '' @ b))"
proof -
  have "messages (personaChatRequest ctx) =
      [(''system'', systemPrompt), (''user'', userMessage ctx)]"
    by (simp add: personaChatRequest_def)
  moreover have "personaChatRequest (ctx\<lparr>recentTweets := take 10 (recentTweets ctx)\<rparr>) =
      personaChatRequest ctx"
    by (simp only: personaChatRequest_def userMessage_take)
  moreover have "str_includes (userMessage ctx)
      (join (map (\<lambda>tweet. bullet @ '' '' @ tweet) (take 10 (recentTweets ctx))) newline)"
    using userMessage_tweetList [of ctx] by (simp only: tweetList_def)
  moreover have "str_includes (createPersonaUserPrompt ctx)
      (join (map (\<lambda>tweet. bullet @ '' '' @ tweet) (take 10 (recentTweets ctx))) newline)"
    using createPersonaUserPrompt_tweetList [of ctx] by (simp only: tweetList_def)
  ultimately show ?thesis
    using userMessage_take createPersonaUserPrompt_take userMessage_bio
      createPersonaUserPrompt_bio generatePersona_sends_fails generatePersona_sends_answers
    by blast
qed

text \<open>
  An API that answers only the request built from the first ten of eleven tweets answers the
  request that \<open>generatePersona\<close> sends for the eleven.
\<close>

theorem user_prompt_first_ten_and_bio_witness:
  "generatePersona (answers_only (personaChatRequest first_ten))
       (\<lambda>s. Inr (JObject complete_reply)) (new_OpenAIClient (Some ''key'') None) eleven_tweets =
     Inr (JObject complete_reply) \<and>
   generatePersona (\<lambda>request. Inl (Error ''down''))
       (\<lambda>s. Inr (JObject complete_reply)) (new_OpenAIClient (Some ''key'') None) eleven_tweets =
     Inl (Error ''Failed to generate persona'') \<and>
   str_includes (userMessage eleven_tweets) ''Bio: Loves hiking and open source.'' \<and>
   str_includes (createPersonaUserPrompt eleven_tweets) ''Bio: Loves hiking and open source.''"
proof -
  have ten: "eleven_tweets\<lparr>recentTweets := take 10 (recentTweets eleven_tweets)\<rparr> = first_ten"
    by (simp add: eleven_tweets_def first_ten_def)
  have key: "truthy (openaiKey (new_OpenAIClient (Some ''key'') None))"
    by (simp add: new_OpenAIClient_def truthy_def)
  have content: "firstContent one_choice = Some ''{...}'' \<and> ''{...}'' \<noteq> []"
    by (simp add: firstContent_def one_choice_def)
  have fields: "json_truthy (map_of complete_reply ''name'') \<and>
      json_truthy (map_of complete_reply ''traits'') \<and>
      json_truthy (map_of complete_reply ''interests'')"
    by (simp add: complete_reply_def)
  have bio: "contextBio eleven_tweets = Some ''Loves hiking and open source.''"
    by (simp add: eleven_tweets_def)
  note a = user_prompt_first_ten_and_bio [of "answers_only (personaChatRequest first_ten)"
      eleven_tweets "Error ''down''" "\<lambda>s. Inr (JObject complete_reply)"
      "new_OpenAIClient (Some ''key'') None" one_choice "''{...}''" complete_reply
      "''Loves hiking and open source.''"]
  note b = user_prompt_first_ten_and_bio [of "\<lambda>request. Inl (Error ''down'')"
      eleven_tweets "Error ''down''" "\<lambda>s. Inr (JObject complete_reply)"
      "new_OpenAIClient (Some ''key'') None" one_choice "''{...}''" complete_reply
      "''Loves hiking and open source.''"]
  have same: "personaChatRequest first_ten = personaChatRequest eleven_tweets"
    using a ten by simp
  have "answers_only (personaChatRequest first_ten) (personaChatRequest eleven_tweets) =
      Inr one_choice"
    by (simp add: answers_only_def same)
  then show ?thesis
    using a b key content fields bio by simp
qed

section \<open>Properties of the route handlers\<close>

text \<open>
  C7. A request to the locations endpoint has its persona and its city present when the
  persona is there and the location is a non-empty string. For such a request, when the
  recommender returns the empty list, the response has status 404 and \<open>success\<close> false. When
  the persona is absent, or the location is absent or empty, the response has status 400.
\<close>

theorem locations_status:
  "(persona req = Some p \<and> location req = Some l \<and> l \<noteq> [] \<and> recommend p l = Inr [] \<longrightarrow>
      status (POST_locations recommend (Inr req)) = 404 \<and>
      success (body (POST_locations recommend (Inr req))) = False) \<and>
   (persona req = None \<or> \<not> truthy (location req) \<longrightarrow>
      status (POST_locations recommend (Inr req)) = 400 \<and>
      success (body (POST_locations recommend (Inr req))) = False)"
  by (auto simp: POST_locations_def bind_def truthy_def split: option.splits)

theorem locations_status_witness:
  "status (POST_locations (\<lambda>p l. Inr [])
      (Inr \<lparr>persona = Some hiker, location = Some ''Toronto''\<rparr>)) = 404 \<and>
   success (body (POST_locations (\<lambda>p l. Inr [])
      (Inr \<lparr>persona = Some hiker, location = Some ''Toronto''\<rparr>))) = False \<and>
   status (POST_locations (\<lambda>p l. Inr [])
      (Inr \<lparr>persona = None, location = Some ''Toronto''\<rparr>)) = 400"
  using locations_status [of "\<lparr>persona = Some hiker, location = Some ''Toronto''\<rparr>" hiker
      "''Toronto''" "\<lambda>p l. Inr []"]
    locations_status [of "\<lparr>persona = None, location = Some ''Toronto''\<rparr>" hiker
      "''Toronto''" "\<lambda>p l. Inr []"]
  by simp

text \<open>
  The persona handler with client objects in the place of the two imports answers 404 when
  the search finds no chunk with text, without a call of the persona generator: the
  response does not depend on the chat-completion API.
\<close>

lemma personaHandler_objects_404:
  assumes "xHandle req = Some h" and "h \<noteq> []"
    and "searchXProfile (axios_post sv) exa (cleanHandle h) = Inr searchResult"
    and "\<forall>c\<in>set (chunks searchResult). trim (text c) = []"
  shows "personaHandler (Object exa) (Object openai) sv (Inr req) =
     \<lparr>status = 404,
      body = \<lparr>success = False, payload = None,
        error = Some ''Could not find X profile data. Please check the handle and try again.''\<rparr>\<rparr>"
proof -
  have "filter (\<lambda>c. trim (text c) \<noteq> []) (chunks searchResult) = []"
    using assms(4) by (simp add: filter_empty_conv)
  then have "tweets (extractProfileInfo searchResult) = []"
    by (simp add: tweets_extractProfileInfo)
  then show ?thesis
    using assms(1,2,3) by (simp add: personaHandler_def bind_def callMethod_def)
qed

text \<open>
  With the imports of the source, which are functions and not client objects, the call of
  \<open>exaClient.searchXProfile\<close> throws for every handle that passes the validation, and the
  handler answers 500.
\<close>

lemma POST_persona_500:
  "xHandle req = Some h \<Longrightarrow> h \<noteq> [] \<Longrightarrow>
   POST_persona sv (Inr req) =
     \<lparr>status = 500,
      body = \<lparr>success = False, payload = None,
        error = Some ''Failed to generate persona. Please try again later.''\<rparr>\<rparr>"
  by (simp add: POST_persona_def personaHandler_def bind_def callMethod_def exaClient_def)

text \<open>
  C4. The request \<open>{xHandle: "jdoe"}\<close>, with a search API that returns no chunk: the search of
  the client would succeed and the extraction would give no tweet, yet the persona endpoint
  of the source answers 500 and not 404.
\<close>

theorem persona_endpoint_no_posts_is_500:
  "searchXProfile (axios_post no_posts) (new_ExaClient None (EXA_API_KEY no_posts)) ''jdoe'' =
     Inr \<lparr>chunks = [], total_chunk_count = 0\<rparr> \<and>
   tweets (extractProfileInfo \<lparr>chunks = [], total_chunk_count = 0\<rparr>) = [] \<and>
   POST_persona no_posts (Inr \<lparr>xHandle = Some ''jdoe''\<rparr>) =
     \<lparr>status = 500,
      body = \<lparr>success = False, payload = None,
        error = Some ''Failed to generate persona. Please try again later.''\<rparr>\<rparr>"
  by (simp add: POST_persona_def personaHandler_def bind_def callMethod_def exaClient_def
      no_posts_def searchXProfile_def validateApiKey_def new_ExaClient_def truthy_def
      extractProfileInfo_def)

section \<open>Properties of the presentation layer\<close>

text \<open>The effect computes the centre of the bounds only from the state \<open>null\<close>.\<close>

lemma mapCenterEffect_from_null:
  "locations \<noteq> [] \<Longrightarrow> bounds (map coordinates locations) = (ne, sw) \<Longrightarrow>
   mapCenterEffect bounds locations None None =
     Some \<lparr>lat = (lat ne + lat sw) / 2, lng = (lng ne + lng sw) / 2\<rparr>"
  by (simp add: mapCenterEffect_def)






subsection \<open>Category tables\<close>

lemma categories_default:
  "getProperty categories ''default'' = Some (Own [CHR 0xF0, CHR 0x9F, CHR 0x93, CHR 0x8D])"
  by (simp add: getProperty_def categories_def)

lemma colors_default: "getProperty colors ''default'' = Some (Own ''757575'')"
  by (simp add: getProperty_def colors_def)

lemma categories_nonempty: "map_of categories k = Some v \<Longrightarrow> v \<noteq> []"
  by (auto simp: categories_def split: if_splits)

lemma colors_nonempty: "map_of colors k = Some v \<Longrightarrow> v \<noteq> []"
  by (auto simp: colors_def split: if_splits)

text \<open>
  For every category whose lower-case form is not the name of a member of
  \<open>Object.prototype\<close>, the glyph is the one of the table, or the default glyph; and the same
  for the colour.
\<close>

lemma getCategoryEmoji_table_or_default:
  assumes "toLowerCase cat \<notin> set Object_prototype"
  shows "getCategoryEmoji cat =
     Some (Own (case map_of categories (toLowerCase cat) of
                  None \<Rightarrow> [CHR 0xF0, CHR 0x9F, CHR 0x93, CHR 0x8D]
                | Some v \<Rightarrow> v))"
proof (cases "map_of categories (toLowerCase cat)")
  case None
  then have "getProperty categories (toLowerCase cat) = None"
    using assms by (simp add: getProperty_def)
  then show ?thesis
    using None by (simp add: getCategoryEmoji_def orElse_def categories_default)
next
  case (Some v)
  then have "getProperty categories (toLowerCase cat) = Some (Own v)" "v \<noteq> []"
    using categories_nonempty by (simp_all add: getProperty_def)
  then show ?thesis
    using Some by (simp add: getCategoryEmoji_def orElse_def)
qed

lemma getCategoryIcon_table_or_default:
  assumes "toLowerCase cat \<notin> set Object_prototype"
  shows "getCategoryIcon None cat selected =
     CircleSymbol
       (Some (Own (case map_of colors (toLowerCase cat) of None \<Rightarrow> ''757575'' | Some v \<Rightarrow> v)))
       ((if selected then 36 else 28) / 10)"
proof (cases "map_of colors (toLowerCase cat)")
  case None
  then have "getProperty colors (toLowerCase cat) = None"
    using assms by (simp add: getProperty_def)
  then show ?thesis
    using None by (simp add: getCategoryIcon_def orElse_def colors_default)
next
  case (Some v)
  then have "getProperty colors (toLowerCase cat) = Some (Own v)" "v \<noteq> []"
    using colors_nonempty by (simp_all add: getProperty_def)
  then show ?thesis
    using Some by (simp add: getCategoryIcon_def orElse_def)
qed

text \<open>
  C10. The category \<open>constructor\<close> is not in either table, yet the lookups do not give the
  default glyph and the default colour: they give the function that every object inherits
  under this name. A category of the table and one that no object inherits behave as stated.
\<close>

theorem inherited_category_is_not_default:
  "map_of categories ''constructor'' = None \<and>
   getCategoryEmoji ''constructor'' = Some (Inherited ''constructor'') \<and>
   getCategoryEmoji ''constructor'' \<noteq> getProperty categories ''default'' \<and>
   map_of colors ''constructor'' = None \<and>
   getCategoryIcon None ''constructor'' False = CircleSymbol (Some (Inherited ''constructor'')) 2.8 \<and>
   getCategoryEmoji ''Cafe'' = Some (Own [CHR 0xE2, CHR 0x98, CHR 0x95]) \<and>
   getCategoryEmoji ''zoo'' = Some (Own [CHR 0xF0, CHR 0x9F, CHR 0x93, CHR 0x8D])"
  by code_simp


end
